theory Spec2Isabelle
  imports Complex_Main "HOL-Library.List_Lexorder" "HOL-Library.Char_ord"
begin

section \<open>View transform (src/src/main.ts, class CustomCanvasView)\<close>

text \<open>
  JavaScript numbers are idealised as real numbers.  The values that a double has
  beyond the reals (NaN and the two infinities) are kept where they can come in
  from outside: in the result of \<^verbatim>\<open>parseFloat\<close> and in what the metadata cache
  holds.  Pan offset and zoom start finite and stay finite.  An anonymous
  \<^verbatim>\<open>{ x, y }\<close> object is a pair.
\<close>

datatype jsnum = NaN | Fin real | PosInfinity | NegInfinity

fun isNaN :: "jsnum \<Rightarrow> bool" where
  "isNaN NaN = True"
| "isNaN _ = False"

text \<open>\<^verbatim>\<open>Math.min\<close> and \<^verbatim>\<open>Math.max\<close> of two arguments: NaN is contagious.\<close>

fun Math_min :: "jsnum \<Rightarrow> jsnum \<Rightarrow> jsnum" where
  "Math_min NaN _ = NaN"
| "Math_min _ NaN = NaN"
| "Math_min NegInfinity _ = NegInfinity"
| "Math_min _ NegInfinity = NegInfinity"
| "Math_min PosInfinity b = b"
| "Math_min a PosInfinity = a"
| "Math_min (Fin a) (Fin b) = Fin (min a b)"

fun Math_max :: "jsnum \<Rightarrow> jsnum \<Rightarrow> jsnum" where
  "Math_max NaN _ = NaN"
| "Math_max _ NaN = NaN"
| "Math_max PosInfinity _ = PosInfinity"
| "Math_max _ PosInfinity = PosInfinity"
| "Math_max NegInfinity b = b"
| "Math_max a NegInfinity = a"
| "Math_max (Fin a) (Fin b) = Fin (max a b)"

text \<open>
  The fields of the view that the transform code reads and writes.  The canvas
  size and the device pixel ratio belong to the host.
\<close>

record view =
  panOffset :: "real \<times> real"
  zoom :: real
  canvas_width :: real
  canvas_height :: real
  devicePixelRatio :: real
  isUpdatingFromInputs :: bool

definition worldToScreen :: "view \<Rightarrow> real \<Rightarrow> real \<Rightarrow> real \<times> real" where
  "worldToScreen v worldX worldY =
     ((worldX + fst (panOffset v)) * zoom v, (worldY + snd (panOffset v)) * zoom v)"

definition screenToWorld :: "view \<Rightarrow> real \<Rightarrow> real \<Rightarrow> real \<times> real" where
  "screenToWorld v screenX screenY =
     (screenX / zoom v - fst (panOffset v), screenY / zoom v - snd (panOffset v))"

text \<open>\<^verbatim>\<open>!this.canvas.width\<close> holds for a width of zero; the canvas itself exists.\<close>

definition getCenterWorldCoordinate :: "view \<Rightarrow> real \<times> real" where
  "getCenterWorldCoordinate v =
     (if canvas_width v = 0 \<or> canvas_height v = 0 then (0, 0)
      else let width = canvas_width v / devicePixelRatio v;
               height = canvas_height v / devicePixelRatio v
           in screenToWorld v (width / 2) (height / 2))"

definition setCenterWorldCoordinate :: "view \<Rightarrow> real \<Rightarrow> real \<Rightarrow> view" where
  "setCenterWorldCoordinate v worldX worldY =
     (if canvas_width v = 0 \<or> canvas_height v = 0 then v
      else let width = canvas_width v / devicePixelRatio v;
               height = canvas_height v / devicePixelRatio v;
               centerScreenX = width / 2;
               centerScreenY = height / 2
           in v\<lparr>panOffset := (centerScreenX / zoom v - worldX, centerScreenY / zoom v - worldY)\<rparr>)"

text \<open>
  \<open>updateZoomFromInput v newZoom\<close>: \<open>newZoom\<close> is the parsed text of the zoom field,
  \<^verbatim>\<open>parseFloat(this.zoomInput.value)\<close>.
  The refresh of the field's text and \<^verbatim>\<open>render()\<close> leave the view's numbers alone
  and are not modelled.  The last case of the \<open>case\<close> is never taken
  (lemma \<open>clamped_finite\<close>).
\<close>

definition updateZoomFromInput :: "view \<Rightarrow> jsnum \<Rightarrow> view" where
  "updateZoomFromInput v newZoom =
     (if isUpdatingFromInputs v then v
      else if isNaN newZoom then v
      else (case Math_max (Fin (1/10)) (Math_min (Fin 5) newZoom) of
              Fin clampedZoom \<Rightarrow>
                let centerBefore = getCenterWorldCoordinate v;
                    v1 = v\<lparr>zoom := clampedZoom\<rparr>
                in setCenterWorldCoordinate v1 (fst centerBefore) (snd centerBefore)
            | _ \<Rightarrow> v))"

text \<open>
  \<open>onWheel v pos deltaY\<close>: \<open>pos\<close> is the pointer position from \<^verbatim>\<open>getMousePos\<close>.
  Here too the refresh of the fields and \<^verbatim>\<open>render()\<close> are left out.
\<close>

definition onWheel :: "view \<Rightarrow> real \<times> real \<Rightarrow> real \<Rightarrow> view" where
  "onWheel v pos deltaY =
     (let worldPos = screenToWorld v (fst pos) (snd pos);
          zoomFactor = (if deltaY > 0 then 9/10 else 11/10);
          v1 = v\<lparr>zoom := zoom v * zoomFactor\<rparr>;
          v2 = v1\<lparr>zoom := max (1/10) (min 5 (zoom v1))\<rparr>;
          newWorldPos = screenToWorld v2 (fst pos) (snd pos)
      in v2\<lparr>panOffset := (fst (panOffset v2) + (fst worldPos - fst newWorldPos),
                           snd (panOffset v2) + (snd worldPos - snd newWorldPos))\<rparr>)"

text \<open>
  The view as the class initialises it (pan (0, 0), zoom 1), on a canvas of
  \<open>w\<close> by \<open>h\<close> device pixels at pixel ratio 1.
\<close>

definition initial_view :: "real \<Rightarrow> real \<Rightarrow> view" where
  "initial_view w h =
     \<lparr>panOffset = (0, 0), zoom = 1, canvas_width = w, canvas_height = h,
      devicePixelRatio = 1, isUpdatingFromInputs = False\<rparr>"

section \<open>Graph model (loadNodes, getEdgeKey, drawLinks)\<close>

text \<open>
  A JavaScript string is a list of code units; the model takes the code units
  U+0000 to U+00FF, one \<^typ>\<open>char\<close> each, compared by code as JavaScript does.
  Values that come out of the host's metadata cache are untyped at run time.
\<close>

datatype jsval = JUndefined | JNull | JBool bool | JNum jsnum | JStr string
  | JArr "jsval list" | JObj

fun truthy :: "jsval \<Rightarrow> bool" where
  "truthy JUndefined = False"
| "truthy JNull = False"
| "truthy (JBool b) = b"
| "truthy (JNum NaN) = False"
| "truthy (JNum (Fin r)) = (r \<noteq> 0)"
| "truthy (JNum PosInfinity) = True"
| "truthy (JNum NegInfinity) = True"
| "truthy (JStr s) = (s \<noteq> [])"
| "truthy (JArr _) = True"
| "truthy JObj = True"

definition endsWith :: "string \<Rightarrow> string \<Rightarrow> bool" where
  "endsWith s suf = (length suf \<le> length s \<and> drop (length s - length suf) s = suf)"

definition startsWith :: "string \<Rightarrow> string \<Rightarrow> bool" where
  "startsWith s pre = (take (length pre) s = pre)"

text \<open>
  A JavaScript \<^verbatim>\<open>Map\<close> keeps its keys in insertion order: an association list
  with distinct keys.  \<^verbatim>\<open>set\<close> on a present key replaces the value in place.
\<close>

definition map_has :: "('k \<times> 'v) list \<Rightarrow> 'k \<Rightarrow> bool" where
  "map_has m k = (map_of m k \<noteq> None)"

fun map_set :: "('k \<times> 'v) list \<Rightarrow> 'k \<Rightarrow> 'v \<Rightarrow> ('k \<times> 'v) list" where
  "map_set [] k v = [(k, v)]"
| "map_set ((k', v') # m) k v = (if k' = k then (k, v) # m else (k', v') # map_set m k v)"

definition map_delete :: "('k \<times> 'v) list \<Rightarrow> 'k \<Rightarrow> ('k \<times> 'v) list" where
  "map_delete m k = filter (\<lambda>kv. fst kv \<noteq> k) m"

definition map_values :: "('k \<times> 'v) list \<Rightarrow> 'v list" where
  "map_values m = map snd m"

record CanvasNode =
  node_id :: string
  node_path :: string
  node_x :: jsnum
  node_y :: jsnum
  node_size :: jsval
  node_label :: string

record CanvasEdge =
  source :: string
  target :: string

text \<open>The four properties that the view reads from a cached front matter.\<close>

record frontmatter =
  fm_node_x :: jsval
  fm_node_y :: jsval
  fm_node_size :: jsval
  fm_edges :: jsval

text \<open>
  A markdown file of the vault: its path, the path of its parent folder (if it
  has a parent), its base name, and the front matter of its cache entry (\<open>None\<close>
  when \<^verbatim>\<open>getFileCache\<close> returns null or the entry has no front matter).
\<close>

record tfile =
  file_path :: string
  file_parent :: "string option"
  file_basename :: string
  file_frontmatter :: "frontmatter option"

text \<open>
  What the host's \<^verbatim>\<open>read\<close> and \<^verbatim>\<open>modify\<close> reject with, and the entries of the
  console: \<^verbatim>\<open>console.warn(message)\<close> and \<^verbatim>\<open>console.error(message, error)\<close>.
\<close>

datatype io_error = ReadRejected string | ModifyRejected string

datatype log_entry = ConsoleWarn string | ConsoleError string io_error

text \<open>
  The host's vault: the markdown files in the order \<^verbatim>\<open>getMarkdownFiles\<close> lists
  them, the paths that \<^verbatim>\<open>getAbstractFileByPath\<close> finds (files and folders), the text
  of each file, and the paths on which \<^verbatim>\<open>read\<close> and \<^verbatim>\<open>modify\<close> reject.
\<close>

record vault =
  markdownFiles :: "tfile list"
  abstractFiles :: "string list"
  contents :: "string \<Rightarrow> string"
  read_rejects :: "string set"
  modify_rejects :: "string set"

definition getAbstractFileByPath :: "vault \<Rightarrow> string \<Rightarrow> bool" where
  "getAbstractFileByPath V p = (p \<in> set (abstractFiles V))"

text \<open>The view's model and its diagnostic sink (the console).\<close>

record graph =
  nodes :: "(string \<times> CanvasNode) list"
  edges :: "(string \<times> CanvasEdge) list"
  console :: "log_entry list"

definition getEdgeKey :: "string \<Rightarrow> string \<Rightarrow> string" where
  "getEdgeKey s t = (if s < t then s @ ''|'' @ t else t @ ''|'' @ s)"

text \<open>The inner loop of \<^verbatim>\<open>loadNodes\<close> over the \<^verbatim>\<open>edges\<close> array of one file.\<close>

fun loadEdges :: "vault \<Rightarrow> string \<Rightarrow> jsval list \<Rightarrow> (string \<times> CanvasEdge) list
    \<Rightarrow> (string \<times> CanvasEdge) list" where
  "loadEdges V path [] es = es"
| "loadEdges V path (JStr targetPath # rest) es =
     loadEdges V path rest
       (if targetPath \<noteq> path then
          let normalizedTarget =
                (if \<not> endsWith targetPath ''.md'' then targetPath @ ''.md'' else targetPath)
          in if getAbstractFileByPath V normalizedTarget then
               let edgeKey = getEdgeKey path normalizedTarget
               in if \<not> map_has es edgeKey
                  then map_set es edgeKey \<lparr>source = path, target = normalizedTarget\<rparr>
                  else es
             else es
        else es)"
| "loadEdges V path (_ # rest) es = loadEdges V path rest es"

text \<open>The body of the loop over the files.\<close>

definition loadFile :: "vault \<Rightarrow> tfile \<Rightarrow> graph \<Rightarrow> graph" where
  "loadFile V file g =
     (case file_frontmatter file of
        None \<Rightarrow> g
      | Some fm \<Rightarrow>
          let nodeX = fm_node_x fm;
              nodeY = fm_node_y fm;
              nodeSize = (if truthy (fm_node_size fm) then fm_node_size fm else JNum (Fin 20))
          in (case (nodeX, nodeY) of
                (JNum x, JNum y) \<Rightarrow>
                  let node = \<lparr>node_id = file_path file, node_path = file_path file,
                              node_x = x, node_y = y, node_size = nodeSize,
                              node_label = file_basename file\<rparr>;
                      g1 = g\<lparr>nodes := map_set (nodes g) (file_path file) node\<rparr>
                  in (case fm_edges fm of
                        JArr es \<Rightarrow> g1\<lparr>edges := loadEdges V (file_path file) es (edges g1)\<rparr>
                      | _ \<Rightarrow> g1)
              | _ \<Rightarrow> g))"

fun loadFiles :: "vault \<Rightarrow> tfile list \<Rightarrow> graph \<Rightarrow> graph" where
  "loadFiles V [] g = g"
| "loadFiles V (file # files) g = loadFiles V files (loadFile V file g)"

text \<open>
  The directory filter.  \<open>currentDirectory\<close> is the result of
  \<^verbatim>\<open>getCurrentDirectory()\<close>, which asks the workspace; null and the empty string
  are both falsy.
\<close>

definition inDirectory :: "string \<Rightarrow> tfile \<Rightarrow> bool" where
  "inDirectory currentDirectory file =
     (let fileDir = (case file_parent file of None \<Rightarrow> [] | Some d \<Rightarrow> d)
      in fileDir = currentDirectory \<or> startsWith fileDir (currentDirectory @ ''/''))"

definition loadNodes :: "bool \<Rightarrow> string option \<Rightarrow> vault \<Rightarrow> graph \<Rightarrow> graph" where
  "loadNodes loadOnlyCurrentDirectory currentDirectory V g =
     (let g0 = g\<lparr>nodes := [], edges := []\<rparr>;
          files = markdownFiles V
      in if loadOnlyCurrentDirectory then
           (case currentDirectory of
              Some d \<Rightarrow>
                if d \<noteq> [] then loadFiles V (filter (inDirectory d) files) g0
                else loadFiles V files
                       (g0\<lparr>console := console g0 @
                          [ConsoleWarn ''[CustomCanvasView] No current directory found, loading all files'']\<rparr>)
            | None \<Rightarrow>
                loadFiles V files
                  (g0\<lparr>console := console g0 @
                     [ConsoleWarn ''[CustomCanvasView] No current directory found, loading all files'']\<rparr>))
         else loadFiles V files g0)"

text \<open>
  The edges for which \<^verbatim>\<open>drawLinks\<close> strokes a segment: those whose two ends are
  in the node map (the others are skipped by \<^verbatim>\<open>continue\<close>).
\<close>

definition drawLinks :: "graph \<Rightarrow> CanvasEdge list" where
  "drawLinks g =
     filter (\<lambda>edge. map_of (nodes g) (source edge) \<noteq> None \<and> map_of (nodes g) (target edge) \<noteq> None)
       (map_values (edges g))"

definition empty_graph :: graph where
  "empty_graph = \<lparr>nodes = [], edges = [], console = []\<rparr>"

text \<open>Sample vaults: a file with coordinates, and what its \<^verbatim>\<open>edges\<close> list names.\<close>

definition sample_note :: "string \<Rightarrow> jsval \<Rightarrow> jsval \<Rightarrow> jsval \<Rightarrow> jsval \<Rightarrow> tfile" where
  "sample_note name x y sz es =
     \<lparr>file_path = name @ ''.md'', file_parent = Some ''/'', file_basename = name,
      file_frontmatter = Some \<lparr>fm_node_x = x, fm_node_y = y, fm_node_size = sz, fm_edges = es\<rparr>\<rparr>"

definition vault_of :: "tfile list \<Rightarrow> vault" where
  "vault_of fs =
     \<lparr>markdownFiles = fs, abstractFiles = map file_path fs, contents = (\<lambda>_. []),
      read_rejects = {}, modify_rejects = {}\<rparr>"

section \<open>Regular expressions and string replacement of JavaScript\<close>

text \<open>
  The regular expressions of the source use: literal characters, the classes
  \<^verbatim>\<open>\s\<close>, \<^verbatim>\<open>\w\<close>, \<^verbatim>\<open>[\s\S]\<close> and \<^verbatim>\<open>.\<close>, greedy and lazy stars over one of
  these, the anchors \<^verbatim>\<open>^\<close> and \<^verbatim>\<open>$\<close>, alternatives, one capturing group, a
  lookahead, and the flags \<^verbatim>\<open>m\<close> and \<^verbatim>\<open>s\<close>.  Groups are neither nested nor under
  a star, so the captures are listed in the order in which the groups close.
\<close>

datatype citem = Space | NonSpace | Word

datatype atom = Chr char | Dot | Cls "citem list"

datatype rx = Atom atom | Star atom | LazyStar atom | Bol | Eol | Eps
  | Seq rx rx | Alt rx rx | Group rx | Lookahead rx

record flags =
  multiline :: bool
  dotAll :: bool

text \<open>
  Line terminators and white space of ECMAScript among the code units up to U+00FF.
\<close>

definition isLineTerminator :: "char \<Rightarrow> bool" where
  "isLineTerminator c = (c = CHR 0x0A \<or> c = CHR 0x0D)"

definition isWhiteSpace :: "char \<Rightarrow> bool" where
  "isWhiteSpace c = (c \<in> set [CHR 0x09, CHR 0x0A, CHR 0x0B, CHR 0x0C, CHR 0x0D, CHR 0x20, CHR 0xA0])"

definition isWordChar :: "char \<Rightarrow> bool" where
  "isWordChar c =
     (let n = (of_char c :: nat)
      in (48 \<le> n \<and> n \<le> 57) \<or> (65 \<le> n \<and> n \<le> 90) \<or> n = 95 \<or> (97 \<le> n \<and> n \<le> 122))"

fun citem_matches :: "citem \<Rightarrow> char \<Rightarrow> bool" where
  "citem_matches Space c = isWhiteSpace c"
| "citem_matches NonSpace c = (\<not> isWhiteSpace c)"
| "citem_matches Word c = isWordChar c"

fun atom_matches :: "flags \<Rightarrow> atom \<Rightarrow> char \<Rightarrow> bool" where
  "atom_matches fl (Chr x) c = (c = x)"
| "atom_matches fl Dot c = (dotAll fl \<or> \<not> isLineTerminator c)"
| "atom_matches fl (Cls items) c = (\<exists>i \<in> set items. citem_matches i c)"

text \<open>
  A matcher state: the characters before the current position (last one first),
  the characters from the position on, and the captures so far.  \<open>matches\<close> lists
  the states in which an expression can end, in the order in which a backtracking
  matcher tries them; the first one is the match.  \<open>run\<close> lists the ends of a run
  of characters of one class, shortest first.
\<close>

type_synonym mstate = "string \<times> string \<times> string list"

fun run :: "flags \<Rightarrow> atom \<Rightarrow> string \<Rightarrow> string \<Rightarrow> string list \<Rightarrow> mstate list" where
  "run fl a seen [] caps = [(seen, [], caps)]"
| "run fl a seen (c # cs) caps =
     (seen, c # cs, caps) #
       (if atom_matches fl a c then run fl a (c # seen) cs caps else [])"

fun matches :: "flags \<Rightarrow> rx \<Rightarrow> mstate \<Rightarrow> mstate list" where
  "matches fl (Atom a) (seen, todo, caps) =
     (case todo of
        [] \<Rightarrow> []
      | c # cs \<Rightarrow> if atom_matches fl a c then [(c # seen, cs, caps)] else [])"
| "matches fl (Star a) (seen, todo, caps) = rev (run fl a seen todo caps)"
| "matches fl (LazyStar a) (seen, todo, caps) = run fl a seen todo caps"
| "matches fl Bol (seen, todo, caps) =
     (if seen = [] \<or> (multiline fl \<and> isLineTerminator (hd seen))
      then [(seen, todo, caps)] else [])"
| "matches fl Eol (seen, todo, caps) =
     (if todo = [] \<or> (multiline fl \<and> isLineTerminator (hd todo))
      then [(seen, todo, caps)] else [])"
| "matches fl Eps st = [st]"
| "matches fl (Seq r1 r2) st = concat (map (matches fl r2) (matches fl r1 st))"
| "matches fl (Alt r1 r2) st = matches fl r1 st @ matches fl r2 st"
| "matches fl (Group r) (seen, todo, caps) =
     map (\<lambda>(seen', todo', caps').
            (seen', todo', caps' @ [rev (take (length seen' - length seen) seen')]))
         (matches fl r (seen, todo, caps))"
| "matches fl (Lookahead r) st = (if matches fl r st = [] then [] else [st])"

definition lit :: "string \<Rightarrow> rx" where
  "lit s = foldr (\<lambda>c r. Seq (Atom (Chr c)) r) s Eps"

definition seq :: "rx list \<Rightarrow> rx" where
  "seq rs = foldr Seq rs Eps"

text \<open>
  \<^verbatim>\<open>RegExp.prototype.exec\<close> without the \<^verbatim>\<open>g\<close> and \<^verbatim>\<open>y\<close> flags: the match at the
  leftmost start position that has one.
\<close>

record match_result =
  m_prefix :: string
  m_matched :: string
  m_suffix :: string
  m_captures :: "string list"

fun exec_from :: "flags \<Rightarrow> rx \<Rightarrow> string \<Rightarrow> string \<Rightarrow> match_result option" where
  "exec_from fl r seen todo =
     (case matches fl r (seen, todo, []) of
        (seen', todo', caps) # _ \<Rightarrow>
          Some \<lparr>m_prefix = rev seen,
                m_matched = rev (take (length seen' - length seen) seen'),
                m_suffix = todo', m_captures = caps\<rparr>
      | [] \<Rightarrow> (case todo of [] \<Rightarrow> None | c # cs \<Rightarrow> exec_from fl r (c # seen) cs))"

definition regex_exec :: "flags \<Rightarrow> rx \<Rightarrow> string \<Rightarrow> match_result option" where
  "regex_exec fl r s = exec_from fl r [] s"


text \<open>\<^verbatim>\<open>str.match(re)\<close> is used for its truth value only.\<close>

definition regex_test :: "flags \<Rightarrow> rx \<Rightarrow> string \<Rightarrow> bool" where
  "regex_test fl r s = (regex_exec fl r s \<noteq> None)"

text \<open>
  \<open>getSubstitution\<close> expands the replacement text of \<^verbatim>\<open>String.prototype.replace\<close>:
  \<^verbatim>\<open>$$\<close>, \<^verbatim>\<open>$&\<close>, \<^verbatim>\<open>$`\<close>, \<^verbatim>\<open>$'\<close>, and \<^verbatim>\<open>$n\<close>, \<^verbatim>\<open>$nn\<close> for a capture that exists.
  No expression here has named groups, so \<^verbatim>\<open>$<\<close> stands for itself.
\<close>

definition isDigit :: "char \<Rightarrow> bool" where
  "isDigit c = (48 \<le> (of_char c :: nat) \<and> (of_char c :: nat) \<le> 57)"

definition digitValue :: "char \<Rightarrow> nat" where
  "digitValue c = of_char c - 48"

definition capture :: "string list \<Rightarrow> nat \<Rightarrow> string" where
  "capture caps index = (if 1 \<le> index \<and> index \<le> length caps then caps ! (index - 1) else [])"

fun getSubstitution :: "match_result \<Rightarrow> string \<Rightarrow> string" where
  "getSubstitution mr [] = []"
| "getSubstitution mr [c] = [c]"
| "getSubstitution mr (c # d # t) =
     (if c \<noteq> CHR ''$'' then c # getSubstitution mr (d # t)
      else if d = CHR ''$'' then CHR ''$'' # getSubstitution mr t
      else if d = CHR 0x60 then m_prefix mr @ getSubstitution mr t
      else if d = CHR ''&'' then m_matched mr @ getSubstitution mr t
      else if d = CHR 0x27 then m_suffix mr @ getSubstitution mr t
      else if isDigit d then
        (let captureLen = length (m_captures mr);
             one = (if 1 \<le> digitValue d \<and> digitValue d \<le> captureLen
                    then capture (m_captures mr) (digitValue d) @ getSubstitution mr t
                    else c # d # getSubstitution mr t)
         in case t of
              [] \<Rightarrow> one
            | e # t' \<Rightarrow>
                if isDigit e \<and> 10 * digitValue d + digitValue e \<le> captureLen then
                  (if 1 \<le> 10 * digitValue d + digitValue e
                   then capture (m_captures mr) (10 * digitValue d + digitValue e)
                          @ getSubstitution mr t'
                   else c # d # e # getSubstitution mr t')
                else one)
      else c # getSubstitution mr (d # t))"

text \<open>\<^verbatim>\<open>str.replace(re, replacement)\<close> with a string replacement and no \<^verbatim>\<open>g\<close> flag.\<close>

definition regex_replace :: "flags \<Rightarrow> rx \<Rightarrow> string \<Rightarrow> string \<Rightarrow> string" where
  "regex_replace fl r s replacement =
     (case regex_exec fl r s of
        None \<Rightarrow> s
      | Some mr \<Rightarrow> m_prefix mr @ getSubstitution mr replacement @ m_suffix mr)"

definition noflags :: flags where
  "noflags = \<lparr>multiline = False, dotAll = False\<rparr>"

definition flags_m :: flags where
  "flags_m = \<lparr>multiline = True, dotAll = False\<rparr>"

definition flags_ms :: flags where
  "flags_ms = \<lparr>multiline = True, dotAll = True\<rparr>"

definition newline :: char where
  "newline = CHR 0x0A"

text \<open>\<^verbatim>\<open>/^---\s*\n([\s\S]*?)\n---\s*\n/\<close>\<close>

definition frontmatterRegex :: rx where
  "frontmatterRegex =
     seq [Bol, lit ''---'', Star (Cls [Space]), Atom (Chr newline),
          Group (LazyStar (Cls [Space, NonSpace])),
          Atom (Chr newline), lit ''---'', Star (Cls [Space]), Atom (Chr newline)]"

text \<open>\<^verbatim>\<open>/^key\s*:/m\<close> and \<^verbatim>\<open>/^key\s*:.*$/m\<close>, for the keys \<^verbatim>\<open>node_x\<close>, \<^verbatim>\<open>node_y\<close>, \<^verbatim>\<open>edges\<close>.\<close>

definition keyRegex :: "string \<Rightarrow> rx" where
  "keyRegex key = seq [Bol, lit key, Star (Cls [Space]), Atom (Chr CHR '':'')]"

definition keyLineRegex :: "string \<Rightarrow> rx" where
  "keyLineRegex key = seq [Bol, lit key, Star (Cls [Space]), Atom (Chr CHR '':''), Star Dot, Eol]"

text \<open>\<^verbatim>\<open>/^edges\s*:.*?(?=\n\w|\n---|$)/ms\<close>\<close>

definition edgesBlockRegex :: rx where
  "edgesBlockRegex =
     seq [Bol, lit ''edges'', Star (Cls [Space]), Atom (Chr CHR '':''), LazyStar Dot,
          Lookahead (Alt (Seq (Atom (Chr newline)) (Atom (Cls [Word])))
                      (Alt (Seq (Atom (Chr newline)) (lit ''---'')) Eol))]"

section \<open>Attribute write-back (saveNodePosition, saveEdgesToFrontmatter)\<close>

text \<open>
  \<^verbatim>\<open>Math.round\<close>, and the decimal text that a template literal gives a number.
  \<open>numberToString\<close> is applied to rounded values only; for an integer below
  \<open>2\<^sup>5\<^sup>3\<close> in magnitude its digits are those that JavaScript prints (above
  that JavaScript prints the shortest digits that read back as the same double,
  and from \<open>10\<^sup>2\<^sup>1\<close> on an exponent).
\<close>

fun Math_round :: "jsnum \<Rightarrow> jsnum" where
  "Math_round (Fin r) = Fin (of_int \<lfloor>r + 1/2\<rfloor>)"
| "Math_round n = n"

function digits :: "nat \<Rightarrow> string" where
  "digits n = (if n < 10 then [''0123456789'' ! n] else digits (n div 10) @ [''0123456789'' ! (n mod 10)])"
  by pat_completeness auto
termination
  by (relation "measure id") auto

declare digits.simps [simp del]

fun numberToString :: "jsnum \<Rightarrow> string" where
  "numberToString NaN = ''NaN''"
| "numberToString PosInfinity = ''Infinity''"
| "numberToString NegInfinity = ''-Infinity''"
| "numberToString (Fin r) =
     (if r < 0 then ''-'' @ digits (nat \<lfloor>- r\<rfloor>) else digits (nat \<lfloor>r\<rfloor>))"

definition join :: "string \<Rightarrow> string list \<Rightarrow> string" where
  "join sep xs = (case xs of [] \<Rightarrow> [] | x # rest \<Rightarrow> x @ concat (map (\<lambda>y. sep @ y) rest))"

definition getEdgesForNode :: "graph \<Rightarrow> string \<Rightarrow> string list" where
  "getEdgesForNode g nodePath =
     map target (filter (\<lambda>edge. source edge = nodePath) (map_values (edges g)))"

text \<open>The first capture of a match of \<open>frontmatterRegex\<close>, \<^verbatim>\<open>match[1]\<close>.\<close>

definition group1 :: "match_result \<Rightarrow> string" where
  "group1 mr = capture (m_captures mr) 1"

definition edgesYaml :: "string list \<Rightarrow> string" where
  "edgesYaml es =
     (if length es = 1 then ''edges: ['' @ [CHR 0x22] @ hd es @ [CHR 0x22] @ '']''
      else ''edges:'' @ [newline] @ join [newline] (map (\<lambda>e. ''  - '' @ [CHR 0x22] @ e @ [CHR 0x22]) es))"

text \<open>
  What \<^verbatim>\<open>saveNodePosition\<close> makes of the text it has read, for a node at \<open>(x, y)\<close>.
\<close>

definition positionText :: "jsnum \<Rightarrow> jsnum \<Rightarrow> string \<Rightarrow> string" where
  "positionText x y content =
     (case regex_exec noflags frontmatterRegex content of
        Some mr \<Rightarrow>
          let frontmatter = group1 mr;
              frontmatter1 =
                (if regex_test flags_m (keyRegex ''node_x'') frontmatter
                 then regex_replace flags_m (keyLineRegex ''node_x'') frontmatter
                        (''node_x: '' @ numberToString (Math_round x))
                 else frontmatter @ [newline] @ ''node_x: '' @ numberToString (Math_round x));
              frontmatter2 =
                (if regex_test flags_m (keyRegex ''node_y'') frontmatter1
                 then regex_replace flags_m (keyLineRegex ''node_y'') frontmatter1
                        (''node_y: '' @ numberToString (Math_round y))
                 else frontmatter1 @ [newline] @ ''node_y: '' @ numberToString (Math_round y))
          in regex_replace noflags frontmatterRegex content
               (''---'' @ [newline] @ frontmatter2 @ [newline] @ ''---'' @ [newline])
      | None \<Rightarrow>
          ''---'' @ [newline] @ ''node_x: '' @ numberToString (Math_round x) @ [newline]
            @ ''node_y: '' @ numberToString (Math_round y) @ [newline] @ ''---'' @ [newline, newline]
            @ content)"

text \<open>
  What \<^verbatim>\<open>saveEdgesToFrontmatter\<close> makes of the text it has read, for the list
  \<open>es\<close> that \<open>getEdgesForNode\<close> returns.
\<close>

definition edgesText :: "string list \<Rightarrow> string \<Rightarrow> string" where
  "edgesText es content =
     (case regex_exec noflags frontmatterRegex content of
        Some mr \<Rightarrow>
          let frontmatter = group1 mr;
              frontmatter1 =
                (if length es > 0 then
                   (if regex_test flags_m (keyRegex ''edges'') frontmatter
                    then regex_replace flags_ms edgesBlockRegex frontmatter (edgesYaml es)
                    else frontmatter @ [newline] @ edgesYaml es)
                 else
                   (if regex_test flags_m (keyRegex ''edges'') frontmatter
                    then regex_replace flags_ms edgesBlockRegex frontmatter []
                    else frontmatter))
          in regex_replace noflags frontmatterRegex content
               (''---'' @ [newline] @ frontmatter1 @ [newline] @ ''---'' @ [newline])
      | None \<Rightarrow>
          if length es > 0
          then ''---'' @ [newline] @ edgesYaml es @ [newline] @ ''---'' @ [newline, newline] @ content
          else content)"

text \<open>The host's read and modify; either may reject.\<close>

definition vault_read :: "vault \<Rightarrow> string \<Rightarrow> io_error + string" where
  "vault_read V path = (if path \<in> read_rejects V then Inl (ReadRejected path) else Inr (contents V path))"

definition vault_modify :: "vault \<Rightarrow> string \<Rightarrow> string \<Rightarrow> io_error + vault" where
  "vault_modify V path text =
     (if path \<in> modify_rejects V then Inl (ModifyRejected path)
      else Inr (V\<lparr>contents := (contents V)(path := text)\<rparr>))"

text \<open>
  The two write-backs.  Each returns the vault and the view's state as they are when
  the promise settles.  A path that \<^verbatim>\<open>getAbstractFileByPath\<close> does not find ends the
  function at once; a rejection of \<^verbatim>\<open>read\<close> or \<^verbatim>\<open>modify\<close> is caught and logged.
\<close>

definition saveEdgesToFrontmatter :: "vault \<Rightarrow> graph \<Rightarrow> string \<Rightarrow> vault \<times> graph" where
  "saveEdgesToFrontmatter V g nodePath =
     (if \<not> getAbstractFileByPath V nodePath then (V, g)
      else case vault_read V nodePath of
             Inl error \<Rightarrow> (V, g\<lparr>console := console g @ [ConsoleError ''Error saving edges:'' error]\<rparr>)
           | Inr content \<Rightarrow>
               (case vault_modify V nodePath (edgesText (getEdgesForNode g nodePath) content) of
                  Inl error \<Rightarrow>
                    (V, g\<lparr>console := console g @ [ConsoleError ''Error saving edges:'' error]\<rparr>)
                | Inr V' \<Rightarrow> (V', g)))"

definition saveNodePosition :: "vault \<Rightarrow> graph \<Rightarrow> CanvasNode \<Rightarrow> vault \<times> graph" where
  "saveNodePosition V g node =
     (if \<not> getAbstractFileByPath V (node_path node) then (V, g)
      else case vault_read V (node_path node) of
             Inl error \<Rightarrow>
               (V, g\<lparr>console := console g @ [ConsoleError ''Error saving node position:'' error]\<rparr>)
           | Inr content \<Rightarrow>
               (case vault_modify V (node_path node) (positionText (node_x node) (node_y node) content) of
                  Inl error \<Rightarrow>
                    (V, g\<lparr>console := console g @ [ConsoleError ''Error saving node position:'' error]\<rparr>)
                | Inr V' \<Rightarrow> (V', g)))"

text \<open>Edge creation and deletion: the edge set changes first, then the write-back runs.\<close>

definition createEdge :: "vault \<Rightarrow> graph \<Rightarrow> CanvasNode \<Rightarrow> CanvasNode \<Rightarrow> vault \<times> graph" where
  "createEdge V g src tgt =
     (let edgeKey = getEdgeKey (node_path src) (node_path tgt)
      in if map_has (edges g) edgeKey then (V, g)
         else saveEdgesToFrontmatter V
                (g\<lparr>edges := map_set (edges g) edgeKey
                               \<lparr>source = node_path src, target = node_path tgt\<rparr>\<rparr>)
                (node_path src))"

definition deleteEdge :: "vault \<Rightarrow> graph \<Rightarrow> CanvasEdge \<Rightarrow> vault \<times> graph" where
  "deleteEdge V g edge =
     (let edgeKey = getEdgeKey (source edge) (target edge)
      in saveEdgesToFrontmatter V (g\<lparr>edges := map_delete (edges g) edgeKey\<rparr>) (source edge))"

section \<open>Sample data and auxiliary definitions\<close>

text \<open>The node that \<open>loadFile\<close> stores for a file with numeric coordinates.\<close>

definition node_of :: "tfile \<Rightarrow> frontmatter \<Rightarrow> jsnum \<Rightarrow> jsnum \<Rightarrow> CanvasNode" where
  "node_of file fm x y =
     \<lparr>node_id = file_path file, node_path = file_path file, node_x = x, node_y = y,
      node_size = (if truthy (fm_node_size fm) then fm_node_size fm else JNum (Fin 20)),
      node_label = file_basename file\<rparr>"


text \<open>
  The target that the loading loop looks up for a listed string, and the second
  invariant of the loop: every entry of the edge set is stored under its own key.
\<close>

definition normalizedTarget :: "string \<Rightarrow> string" where
  "normalizedTarget targetPath =
     (if \<not> endsWith targetPath ''.md'' then targetPath @ ''.md'' else targetPath)"


text \<open>
  Three notes: A at (0, 0) with \<^verbatim>\<open>node_size: 0\<close> and \<^verbatim>\<open>edges: ["B", "C"]\<close>,
  B without coordinates, C at (100, 0) with \<^verbatim>\<open>node_size: -5\<close>.
\<close>

definition note_A :: tfile where
  "note_A = sample_note ''A'' (JNum (Fin 0)) (JNum (Fin 0)) (JNum (Fin 0)) (JArr [JStr ''B'', JStr ''C''])"

definition note_B :: tfile where
  "note_B = sample_note ''B'' JUndefined JUndefined JUndefined JUndefined"

definition note_C :: tfile where
  "note_C = sample_note ''C'' (JNum (Fin 100)) (JNum (Fin 0)) (JNum (Fin (-5))) JUndefined"

definition vault_ABC :: vault where
  "vault_ABC = vault_of [note_A, note_B, note_C]"

text \<open>One note, A at (0, 0), whose list names A itself without the suffix.\<close>

definition vault_A :: vault where
  "vault_A = vault_of
     [sample_note ''A'' (JNum (Fin 0)) (JNum (Fin 0)) JUndefined (JArr [JStr ''A''])]"

text \<open>
  The node of note A as the view holds it after a drag to (5.2, 6.8), a node whose
  file is not in the vault, and the vault of note A with a rejecting \<^verbatim>\<open>read\<close> or
  a rejecting \<^verbatim>\<open>modify\<close>.
\<close>

definition node_A :: CanvasNode where
  "node_A = \<lparr>node_id = ''A.md'', node_path = ''A.md'', node_x = Fin (26/5), node_y = Fin (34/5),
             node_size = JNum (Fin 20), node_label = ''A''\<rparr>"

definition node_gone :: CanvasNode where
  "node_gone = node_A\<lparr>node_id := ''gone.md'', node_path := ''gone.md''\<rparr>"

definition vault_A_unreadable :: vault where
  "vault_A_unreadable = vault_A\<lparr>read_rejects := {''A.md''}\<rparr>"

definition vault_A_unwritable :: vault where
  "vault_A_unwritable = vault_A\<lparr>modify_rejects := {''A.md''}\<rparr>"

section \<open>Properties of the view transform\<close>

lemma clamped_finite:
  assumes "\<not> isNaN n"
  shows "\<exists>z. Math_max (Fin (1/10)) (Math_min (Fin 5) n) = Fin z \<and> 1/10 \<le> z \<and> z \<le> 5"
proof (cases n)
  case NaN
  with assms show ?thesis by simp
next
  case (Fin r)
  then show ?thesis by auto
next
  case PosInfinity
  then show ?thesis by simp
next
  case NegInfinity
  have "Math_max (Fin (1/10)) (Math_min (Fin 5) NegInfinity) = Fin (1/10)" by simp
  with NegInfinity show ?thesis by (intro exI[of _ "1/10"]) simp
qed

text \<open>
  Claim C4.  With numbers read as reals, mapping a world point to the screen and
  back returns the point exactly, for every pan offset and every zoom between 0.1
  and 5.0; \<open>worldToScreen\<close> computes \<open>(world + pan) * zoom\<close>.
\<close>

theorem screenToWorld_worldToScreen:
  assumes "1/10 \<le> zoom v" and "zoom v \<le> 5"
  shows "screenToWorld v (fst (worldToScreen v wx wy)) (snd (worldToScreen v wx wy)) = (wx, wy)
       \<and> worldToScreen v wx wy = ((wx + fst (panOffset v)) * zoom v, (wy + snd (panOffset v)) * zoom v)"
  using assms by (simp add: screenToWorld_def worldToScreen_def)

theorem screenToWorld_worldToScreen_witness:
  "screenToWorld ((initial_view 800 600)\<lparr>panOffset := (3, -4), zoom := 2\<rparr>) 26 32 = (10, 20)
   \<and> worldToScreen ((initial_view 800 600)\<lparr>panOffset := (3, -4), zoom := 2\<rparr>) 10 20 = (26, 32)"
  using screenToWorld_worldToScreen
    [of "(initial_view 800 600)\<lparr>panOffset := (3, -4), zoom := 2\<rparr>" 10 20]
  by (simp add: initial_view_def worldToScreen_def)

text \<open>
  Claim C8.  A wheel step leaves the zoom between 0.1 and 5.0 whatever the zoom was,
  and an edit of the zoom field, started from a zoom in that range, ends in that
  range for every parsed value of the field (NaN and the infinities included).
\<close>

theorem zoom_in_range:
  assumes "1/10 \<le> zoom v" and "zoom v \<le> 5"
  shows "1/10 \<le> zoom (onWheel v pos deltaY) \<and> zoom (onWheel v pos deltaY) \<le> 5
       \<and> 1/10 \<le> zoom (updateZoomFromInput v newZoom) \<and> zoom (updateZoomFromInput v newZoom) \<le> 5"
proof -
  have wheel: "1/10 \<le> zoom (onWheel v pos deltaY) \<and> zoom (onWheel v pos deltaY) \<le> 5"
    by (simp add: onWheel_def Let_def)
  have field: "1/10 \<le> zoom (updateZoomFromInput v newZoom) \<and> zoom (updateZoomFromInput v newZoom) \<le> 5"
  proof (cases "isUpdatingFromInputs v \<or> isNaN newZoom")
    case True
    then show ?thesis using assms by (auto simp: updateZoomFromInput_def)
  next
    case False
    then obtain z where z: "Math_max (Fin (1/10)) (Math_min (Fin 5) newZoom) = Fin z"
      "1/10 \<le> z" "z \<le> 5"
      using clamped_finite by blast
    with False show ?thesis
      by (simp add: updateZoomFromInput_def setCenterWorldCoordinate_def Let_def)
  qed
  from wheel field show ?thesis by simp
qed

theorem zoom_in_range_witness:
  "zoom (onWheel ((initial_view 800 600)\<lparr>zoom := 5\<rparr>) (100, 100) (-1)) = 5
   \<and> zoom (updateZoomFromInput ((initial_view 800 600)\<lparr>zoom := 5\<rparr>) NegInfinity) = 1/10"
  using zoom_in_range [of "(initial_view 800 600)\<lparr>zoom := 5\<rparr>" "(100, 100)" "-1" NegInfinity]
  by (simp add: initial_view_def onWheel_def updateZoomFromInput_def setCenterWorldCoordinate_def
        getCenterWorldCoordinate_def Let_def)

text \<open>
  Claim C3.  The wheel step does not keep the world point under the pointer: from
  the initial view (pan (0, 0), zoom 1), a wheel-up step at screen point (100, 100) leaves world
  point (900/11, 900/11) under the pointer, where (100, 100) was before.  The pan
  is moved by \<open>worldPos - newWorldPos\<close>; keeping the point needs the opposite sign.
\<close>

theorem onWheel_moves_point_under_pointer:
  "screenToWorld (initial_view 800 600) 100 100 = (100, 100)
   \<and> zoom (onWheel (initial_view 800 600) (100, 100) (-1)) = 11/10
   \<and> screenToWorld (onWheel (initial_view 800 600) (100, 100) (-1)) 100 100 = (900/11, 900/11)"
  by (simp add: initial_view_def onWheel_def screenToWorld_def Let_def)

section \<open>Properties of the graph model\<close>

lemmas load_defs = note_A_def note_B_def note_C_def loadNodes_def vault_of_def sample_note_def empty_graph_def loadFile_def
  getEdgeKey_def endsWith_def getAbstractFileByPath_def map_has_def Let_def map_values_def
  drawLinks_def

lemma map_of_map_set:
  "map_of (map_set m k v) k' = (if k' = k then Some v else map_of m k')"
  by (induction m) auto








lemma loadFile_nodes:
  "map_of (nodes (loadFile V file g)) p = Some n \<Longrightarrow>
     map_of (nodes g) p = Some n \<or>
     (file_path file = p \<and> (\<exists>fm x y. file_frontmatter file = Some fm \<and> n = node_of file fm x y))"
  unfolding loadFile_def node_of_def
  by (auto simp: Let_def map_of_map_set split: option.splits jsval.splits if_splits)

lemma loadFiles_nodes:
  "map_of (nodes (loadFiles V fs g)) p = Some n \<Longrightarrow>
     map_of (nodes g) p = Some n \<or>
     (\<exists>file \<in> set fs. file_path file = p \<and>
        (\<exists>fm x y. file_frontmatter file = Some fm \<and> n = node_of file fm x y))"
proof (induction fs arbitrary: g)
  case Nil
  then show ?case by simp
next
  case (Cons f fs)
  from Cons.prems have "map_of (nodes (loadFiles V fs (loadFile V f g))) p = Some n" by simp
  from Cons.IH [OF this] show ?case
  proof
    assume "map_of (nodes (loadFile V f g)) p = Some n"
    from loadFile_nodes [OF this] show ?thesis by auto
  next
    assume "\<exists>file \<in> set fs. file_path file = p \<and>
        (\<exists>fm x y. file_frontmatter file = Some fm \<and> n = node_of file fm x y)"
    then show ?thesis by auto
  qed
qed

lemma loadNodes_nodes:
  assumes "map_of (nodes (loadNodes b d V g)) p = Some n"
  shows "\<exists>file \<in> set (markdownFiles V). file_path file = p \<and>
        (\<exists>fm x y. file_frontmatter file = Some fm \<and> n = node_of file fm x y)"
  using assms unfolding loadNodes_def Let_def
  by (fastforce split: if_splits option.splits dest!: loadFiles_nodes)



















text \<open>
  Claim C7.  The rebuild compares the listed string with the file's path before it
  appends the suffix: note \<^verbatim>\<open>A.md\<close> listing \<^verbatim>\<open>"A"\<close> gets an edge from itself to itself.
\<close>

theorem loadNodes_registers_self_edge:
  "edges (loadNodes False None vault_A empty_graph)
     = [(''A.md|A.md'', \<lparr>source = ''A.md'', target = ''A.md''\<rparr>)]"
  by (simp add: vault_A_def load_defs)

text \<open>
  Claim C10.  For a file of the vault that the rebuild stores as a node, the node's
  size is 20 whenever the declared \<^verbatim>\<open>node_size\<close> is falsy, in particular for 0, and
  is the declared value when that is a negative number.  File paths are distinct in
  a vault.
\<close>

theorem node_size_default:
  assumes "distinct (map file_path (markdownFiles V))"
    and "file \<in> set (markdownFiles V)"
    and "file_frontmatter file = Some fm"
    and "map_of (nodes (loadNodes loadOnlyCurrentDirectory currentDirectory V g)) (file_path file)
           = Some node"
  shows "(\<not> truthy (fm_node_size fm) \<longrightarrow> node_size node = JNum (Fin 20))
       \<and> (fm_node_size fm = JNum (Fin 0) \<longrightarrow> node_size node = JNum (Fin 20))
       \<and> (\<forall>r. r < 0 \<longrightarrow> fm_node_size fm = JNum (Fin r) \<longrightarrow> node_size node = JNum (Fin r))"
proof -
  from loadNodes_nodes [OF assms(4)] obtain file' fm' x y where
    f: "file' \<in> set (markdownFiles V)" "file_path file' = file_path file"
       "file_frontmatter file' = Some fm'" "node = node_of file' fm' x y" by blast
  from assms(1,2) f(1,2) have "file' = file"
    by (meson distinct_map inj_onD)
  with f assms(3) have "node = node_of file fm x y" by simp
  then show ?thesis by (auto simp: node_of_def)
qed

theorem node_size_default_witness:
  "map_of (nodes (loadNodes False None vault_ABC empty_graph)) ''A.md'' =
     Some \<lparr>node_id = ''A.md'', node_path = ''A.md'', node_x = Fin 0, node_y = Fin 0,
           node_size = JNum (Fin 20), node_label = ''A''\<rparr>
   \<and> map_of (nodes (loadNodes False None vault_ABC empty_graph)) ''C.md'' =
     Some \<lparr>node_id = ''C.md'', node_path = ''C.md'', node_x = Fin 100, node_y = Fin 0,
           node_size = JNum (Fin (-5)), node_label = ''C''\<rparr>"
proof -
  let ?G = "loadNodes False None vault_ABC empty_graph"
  let ?fmA = "\<lparr>fm_node_x = JNum (Fin 0), fm_node_y = JNum (Fin 0), fm_node_size = JNum (Fin 0),
               fm_edges = JArr [JStr ''B'', JStr ''C'']\<rparr>"
  let ?fmC = "\<lparr>fm_node_x = JNum (Fin 100), fm_node_y = JNum (Fin 0),
               fm_node_size = JNum (Fin (-5)), fm_edges = JUndefined\<rparr>"
  let ?nA = "\<lparr>node_id = ''A.md'', node_path = ''A.md'', node_x = Fin 0, node_y = Fin 0,
              node_size = if truthy (JNum (Fin 0)) then JNum (Fin 0) else JNum (Fin 20),
              node_label = ''A''\<rparr>"
  let ?nC = "\<lparr>node_id = ''C.md'', node_path = ''C.md'', node_x = Fin 100, node_y = Fin 0,
              node_size = JNum (Fin (-5)), node_label = ''C''\<rparr>"
  have d: "distinct (map file_path (markdownFiles vault_ABC))"
    by (simp add: vault_ABC_def load_defs)
  have mA: "note_A \<in> set (markdownFiles vault_ABC)" and mC: "note_C \<in> set (markdownFiles vault_ABC)"
    by (simp_all add: vault_ABC_def vault_of_def)
  have fA: "file_frontmatter note_A = Some ?fmA" and fC: "file_frontmatter note_C = Some ?fmC"
    by (simp_all add: note_A_def note_C_def sample_note_def)
  have nA: "map_of (nodes ?G) (file_path note_A) = Some ?nA"
    by (simp add: vault_ABC_def load_defs)
  have nC: "map_of (nodes ?G) (file_path note_C) = Some ?nC"
    by (simp add: vault_ABC_def load_defs)
  have pA: "file_path note_A = ''A.md''" and pC: "file_path note_C = ''C.md''"
    by (simp_all add: note_A_def note_C_def sample_note_def)
  from node_size_default [OF d mA fA nA] have "node_size ?nA = JNum (Fin 20)" by simp
  then have "?nA = \<lparr>node_id = ''A.md'', node_path = ''A.md'', node_x = Fin 0, node_y = Fin 0,
           node_size = JNum (Fin 20), node_label = ''A''\<rparr>" by simp
  moreover from node_size_default [OF d mC fC nC] have "node_size ?nC = JNum (Fin (-5))" by simp
  ultimately show ?thesis using nA nC pA pC by simp
qed

section \<open>Properties of the attribute write-back\<close>

lemma write_back_keeps_model:
  "nodes (snd (saveEdgesToFrontmatter V g p)) = nodes g \<and> edges (snd (saveEdgesToFrontmatter V g p)) = edges g"
  by (simp add: saveEdgesToFrontmatter_def vault_read_def vault_modify_def)

text \<open>
  An edge that \<open>createEdge\<close> has put into the edge set stays there whatever happens
  to the write-back, and an edge that \<open>deleteEdge\<close> has taken out stays out.
\<close>

lemma createEdge_edges:
  "edges (snd (createEdge V g src tgt)) =
     (if map_has (edges g) (getEdgeKey (node_path src) (node_path tgt)) then edges g
      else map_set (edges g) (getEdgeKey (node_path src) (node_path tgt))
             \<lparr>source = node_path src, target = node_path tgt\<rparr>)"
  by (simp add: createEdge_def Let_def write_back_keeps_model)

lemma deleteEdge_edges:
  "edges (snd (deleteEdge V g edge)) = map_delete (edges g) (getEdgeKey (source edge) (target edge))"
  by (simp add: deleteEdge_def Let_def write_back_keeps_model)

text \<open>
  Claim C1.  The closing marker is matched by \<^verbatim>\<open>---\s*\n\<close>, and \<^verbatim>\<open>\s*\<close> runs over
  line ends: a blank line between the block and the body is part of the match and
  is not written back.  Both write-backs lose it.
\<close>

theorem write_back_drops_blank_line_after_block:
  \<open>positionText (Fin 5) (Fin 7) ''---\<newline>node_x: 1\<newline>node_y: 2\<newline>---\<newline>\<newline>Body\<newline>''
     = ''---\<newline>node_x: 5\<newline>node_y: 7\<newline>---\<newline>Body\<newline>''
   \<and> edgesText [''C.md''] ''---\<newline>node_x: 1\<newline>node_y: 2\<newline>---\<newline>\<newline>Body\<newline>''
     = ''---\<newline>node_x: 1\<newline>node_y: 2\<newline>edges: ["C.md"]\<newline>---\<newline>Body\<newline>''\<close>
  by code_simp

text \<open>
  Claim C2.  A second write with the same patch changes the text again.  For a
  text without a block the first write puts a blank line after the new block and
  the second write removes it; for an edge list of two entries every write adds
  the list lines once more, because only the \<^verbatim>\<open>edges:\<close> line is replaced.
\<close>

theorem write_back_twice_differs:
  \<open>positionText (Fin 5) (Fin 7) ''Body''
     = ''---\<newline>node_x: 5\<newline>node_y: 7\<newline>---\<newline>\<newline>Body''
   \<and> positionText (Fin 5) (Fin 7) (positionText (Fin 5) (Fin 7) ''Body'')
     = ''---\<newline>node_x: 5\<newline>node_y: 7\<newline>---\<newline>Body''
   \<and> edgesText [''B.md'', ''C.md''] ''---\<newline>edges: ["B.md"]\<newline>---\<newline>Body''
     = ''---\<newline>edges:\<newline>  - "B.md"\<newline>  - "C.md"\<newline>---\<newline>Body''
   \<and> edgesText [''B.md'', ''C.md'']
       (edgesText [''B.md'', ''C.md''] ''---\<newline>edges: ["B.md"]\<newline>---\<newline>Body'')
     = ''---\<newline>edges:\<newline>  - "B.md"\<newline>  - "C.md"\<newline>  - "B.md"\<newline>  - "C.md"\<newline>---\<newline>Body''\<close>
  by code_simp

text \<open>
  Claim C5.  With the \<^verbatim>\<open>m\<close> flag the \<^verbatim>\<open>$\<close> of the lookahead holds at the end of
  the \<^verbatim>\<open>edges:\<close> line, so the lazy \<^verbatim>\<open>.*?\<close> stops there: writing the empty list
  to a block in the multi-line form removes the key line and leaves the list lines.
  In the inline form the entry goes (an empty line stays).
\<close>

theorem empty_edges_leaves_list_lines:
  \<open>edgesText [] ''---\<newline>node_x: 0\<newline>edges:\<newline>  - "A.md"\<newline>  - "C.md"\<newline>---\<newline>Body''
     = ''---\<newline>node_x: 0\<newline>\<newline>  - "A.md"\<newline>  - "C.md"\<newline>---\<newline>Body''
   \<and> edgesText [] ''---\<newline>node_x: 0\<newline>edges: ["A.md"]\<newline>node_y: 0\<newline>---\<newline>Body''
     = ''---\<newline>node_x: 0\<newline>\<newline>node_y: 0\<newline>---\<newline>Body''\<close>
  by code_simp

text \<open>
  Claim C9, as the code has it.  When the document is not found, the write-back
  returns at once: vault, model and console are as before, and nothing is reported.
  When the document is found and \<^verbatim>\<open>read\<close> or \<^verbatim>\<open>modify\<close> rejects, the vault and the
  model are as before and the console has one more entry, the error.  No write-back
  changes the node map or the edge set.
\<close>

theorem write_failure:
  "(\<not> getAbstractFileByPath V (node_path node) \<longrightarrow> saveNodePosition V g node = (V, g))
   \<and> (\<not> getAbstractFileByPath V nodePath \<longrightarrow> saveEdgesToFrontmatter V g nodePath = (V, g))
   \<and> (getAbstractFileByPath V (node_path node)
        \<and> (node_path node \<in> read_rejects V \<or> node_path node \<in> modify_rejects V) \<longrightarrow>
       (\<exists>error. saveNodePosition V g node
          = (V, g\<lparr>console := console g @ [ConsoleError ''Error saving node position:'' error]\<rparr>)))
   \<and> (getAbstractFileByPath V nodePath
        \<and> (nodePath \<in> read_rejects V \<or> nodePath \<in> modify_rejects V) \<longrightarrow>
       (\<exists>error. saveEdgesToFrontmatter V g nodePath
          = (V, g\<lparr>console := console g @ [ConsoleError ''Error saving edges:'' error]\<rparr>)))
   \<and> nodes (snd (saveNodePosition V g node)) = nodes g
   \<and> edges (snd (saveNodePosition V g node)) = edges g
   \<and> nodes (snd (saveEdgesToFrontmatter V g nodePath)) = nodes g
   \<and> edges (snd (saveEdgesToFrontmatter V g nodePath)) = edges g"
proof -
  have a: "\<not> getAbstractFileByPath V (node_path node) \<longrightarrow> saveNodePosition V g node = (V, g)"
    by (simp add: saveNodePosition_def)
  have b: "\<not> getAbstractFileByPath V nodePath \<longrightarrow> saveEdgesToFrontmatter V g nodePath = (V, g)"
    by (simp add: saveEdgesToFrontmatter_def)
  have c: "getAbstractFileByPath V (node_path node)
        \<and> (node_path node \<in> read_rejects V \<or> node_path node \<in> modify_rejects V) \<longrightarrow>
       (\<exists>error. saveNodePosition V g node
          = (V, g\<lparr>console := console g @ [ConsoleError ''Error saving node position:'' error]\<rparr>))"
    by (cases "node_path node \<in> read_rejects V")
       (auto simp: saveNodePosition_def vault_read_def vault_modify_def)
  have d: "getAbstractFileByPath V nodePath
        \<and> (nodePath \<in> read_rejects V \<or> nodePath \<in> modify_rejects V) \<longrightarrow>
       (\<exists>error. saveEdgesToFrontmatter V g nodePath
          = (V, g\<lparr>console := console g @ [ConsoleError ''Error saving edges:'' error]\<rparr>))"
    by (cases "nodePath \<in> read_rejects V")
       (auto simp: saveEdgesToFrontmatter_def vault_read_def vault_modify_def)
  have e: "nodes (snd (saveNodePosition V g node)) = nodes g
         \<and> edges (snd (saveNodePosition V g node)) = edges g"
    by (simp add: saveNodePosition_def vault_read_def vault_modify_def)
  have f: "nodes (snd (saveEdgesToFrontmatter V g nodePath)) = nodes g
         \<and> edges (snd (saveEdgesToFrontmatter V g nodePath)) = edges g"
    by (simp add: saveEdgesToFrontmatter_def vault_read_def vault_modify_def)
  from a b c d e f show ?thesis by blast
qed

theorem write_failure_witness:
  "saveNodePosition vault_A empty_graph node_gone = (vault_A, empty_graph)
   \<and> saveEdgesToFrontmatter vault_A empty_graph ''gone.md'' = (vault_A, empty_graph)
   \<and> saveNodePosition vault_A_unreadable empty_graph node_A
      = (vault_A_unreadable,
         empty_graph\<lparr>console := [ConsoleError ''Error saving node position:'' (ReadRejected ''A.md'')]\<rparr>)
   \<and> saveEdgesToFrontmatter vault_A_unwritable empty_graph ''A.md''
      = (vault_A_unwritable,
         empty_graph\<lparr>console := [ConsoleError ''Error saving edges:'' (ModifyRejected ''A.md'')]\<rparr>)"
proof -
  have gone: "\<not> getAbstractFileByPath vault_A (node_path node_gone)"
    "\<not> getAbstractFileByPath vault_A ''gone.md''"
    by (simp_all add: node_gone_def node_A_def vault_A_def load_defs)
  have found: "getAbstractFileByPath vault_A_unreadable (node_path node_A)"
    "getAbstractFileByPath vault_A_unwritable ''A.md''"
    by (simp_all add: vault_A_unreadable_def vault_A_unwritable_def node_A_def vault_A_def load_defs)
  have rejects: "node_path node_A \<in> read_rejects vault_A_unreadable"
    "''A.md'' \<in> modify_rejects vault_A_unwritable"
    by (simp_all add: vault_A_unreadable_def vault_A_unwritable_def node_A_def)
  have 1: "saveNodePosition vault_A empty_graph node_gone = (vault_A, empty_graph)"
    and 2: "saveEdgesToFrontmatter vault_A empty_graph ''gone.md'' = (vault_A, empty_graph)"
    using write_failure [where V = vault_A and node = node_gone and nodePath = "''gone.md''"
        and g = empty_graph] gone by simp_all
  have 3: "saveNodePosition vault_A_unreadable empty_graph node_A
      = (vault_A_unreadable,
         empty_graph\<lparr>console := [ConsoleError ''Error saving node position:'' (ReadRejected ''A.md'')]\<rparr>)"
    using write_failure [where V = vault_A_unreadable and node = node_A and nodePath = "''A.md''"
        and g = empty_graph] found rejects
    by (simp add: saveNodePosition_def vault_read_def empty_graph_def node_A_def)
  have 4: "saveEdgesToFrontmatter vault_A_unwritable empty_graph ''A.md''
      = (vault_A_unwritable,
         empty_graph\<lparr>console := [ConsoleError ''Error saving edges:'' (ModifyRejected ''A.md'')]\<rparr>)"
    using write_failure [where V = vault_A_unwritable and node = node_A and nodePath = "''A.md''"
        and g = empty_graph] found rejects
    by (simp add: saveEdgesToFrontmatter_def vault_read_def vault_modify_def empty_graph_def
          vault_A_unwritable_def vault_A_def vault_of_def)
  from 1 2 3 4 show ?thesis by simp
qed

text \<open>
  Claim C9, as stated, fails where the document is not found: the write-back for a
  node whose file is gone leaves the console empty.
\<close>

theorem missing_document_is_not_reported:
  "console (snd (saveNodePosition vault_A empty_graph node_gone)) = []
   \<and> console (snd (saveEdgesToFrontmatter vault_A empty_graph ''gone.md'')) = []"
  by (simp add: saveNodePosition_def saveEdgesToFrontmatter_def node_gone_def node_A_def
        vault_A_def load_defs)

end
